theory Spec2Isabelle
  imports Complex_Main "HOL-Library.Sublist"
begin

section \<open>Python strings\<close>

text \<open>
  A Python \<open>str\<close> is modelled as a \<^typ>\<open>string\<close>, one \<^typ>\<open>char\<close> per code point: the
  character with number \<open>n\<close> stands for the code point U+00\<open>n\<close>, so the model covers the
  texts whose code points lie in U+0000..U+00FF and \<^const>\<open>length\<close> counts code points as
  Python's \<open>len\<close> does. On this range \<open>str.isspace\<close>, the regex classes \<open>\s\<close> and \<open>\d\<close>,
  \<open>str.lower\<close> and \<open>str.isupper\<close> are the finite tables below. Source literals that
  contain a code point above U+00FF can never occur in such a text; each place where one
  is left out of a keyword list is marked.
\<close>

abbreviation TAB :: char where "TAB \<equiv> CHR 0x09"
abbreviation NL :: char where "NL \<equiv> CHR 0x0A"
abbreviation CR :: char where "CR \<equiv> CHR 0x0D"
abbreviation SP :: char where "SP \<equiv> CHR 0x20"

text \<open>\<open>str.isspace\<close> and the regex class \<open>\s\<close>: U+0009..U+000D, U+001C..U+0020, U+0085, U+00A0.\<close>

definition py_isspace :: "char \<Rightarrow> bool" where
  "py_isspace c = (let n = (of_char c :: nat) in
     (9 \<le> n \<and> n \<le> 13) \<or> (28 \<le> n \<and> n \<le> 32) \<or> n = 133 \<or> n = 160)"

text \<open>The regex class \<open>\d\<close>: the decimal digits, which below U+0100 are \<open>0\<close>..\<open>9\<close>.\<close>

definition py_isdigit :: "char \<Rightarrow> bool" where
  "py_isdigit c = (let n = (of_char c :: nat) in 48 \<le> n \<and> n \<le> 57)"

text \<open>The upper-case letters: \<open>A\<close>..\<open>Z\<close>, U+00C0..U+00D6 and U+00D8..U+00DE.\<close>

definition py_isupper_char :: "char \<Rightarrow> bool" where
  "py_isupper_char c = (let n = (of_char c :: nat) in
     (65 \<le> n \<and> n \<le> 90) \<or> (192 \<le> n \<and> n \<le> 214) \<or> (216 \<le> n \<and> n \<le> 222))"

text \<open>The lower-case letters: \<open>a\<close>..\<open>z\<close>, U+00AA, U+00B5, U+00BA, U+00DF..U+00F6, U+00F8..U+00FF.\<close>

definition py_islower_char :: "char \<Rightarrow> bool" where
  "py_islower_char c = (let n = (of_char c :: nat) in
     (97 \<le> n \<and> n \<le> 122) \<or> n = 170 \<or> n = 181 \<or> n = 186 \<or>
     (223 \<le> n \<and> n \<le> 246) \<or> (248 \<le> n \<and> n \<le> 255))"

text \<open>\<open>str.lower\<close> maps every upper-case letter 32 code points up and keeps the rest.\<close>

definition py_lower_char :: "char \<Rightarrow> char" where
  "py_lower_char c = (if py_isupper_char c then char_of ((of_char c :: nat) + 32) else c)"

definition py_lower :: "string \<Rightarrow> string" where
  "py_lower s = map py_lower_char s"

text \<open>\<open>str.isupper\<close>: no lower-case letter and at least one upper-case letter.\<close>

definition py_isupper :: "string \<Rightarrow> bool" where
  "py_isupper s = (\<not> list_ex py_islower_char s \<and> list_ex py_isupper_char s)"

text \<open>\<open>str.strip()\<close> removes the white space at both ends.\<close>

definition py_strip :: "string \<Rightarrow> string" where
  "py_strip s = rev (dropWhile py_isspace (rev (dropWhile py_isspace s)))"

text \<open>\<open>k in s\<close> on strings: \<open>k\<close> occurs in \<open>s\<close> as a contiguous substring.\<close>

fun py_in :: "string \<Rightarrow> string \<Rightarrow> bool" where
  "py_in k [] = (k = [])"
| "py_in k (x # xs) = (prefix k (x # xs) \<or> py_in k xs)"

text \<open>\<open>any(k in s for k in ks)\<close>, also a regex search for an alternation of literals.\<close>

definition any_in :: "string list \<Rightarrow> string \<Rightarrow> bool" where
  "any_in ks s = list_ex (\<lambda>k. py_in k s) ks"

text \<open>\<open>s.split(sep)\<close> for a one-character separator; \<open>acc\<close> is the piece being read.\<close>

fun split_acc :: "char \<Rightarrow> string \<Rightarrow> string \<Rightarrow> string list" where
  "split_acc sep acc [] = [acc]"
| "split_acc sep acc (x # xs) =
     (if x = sep then acc # split_acc sep [] xs else split_acc sep (acc @ [x]) xs)"

definition py_split :: "char \<Rightarrow> string \<Rightarrow> string list" where
  "py_split sep s = split_acc sep [] s"

text \<open>\<open>" ".join(xs)\<close>.\<close>

fun join_sp :: "string list \<Rightarrow> string" where
  "join_sp [] = []"
| "join_sp [x] = x"
| "join_sp (x # y # ys) = x @ SP # join_sp (y # ys)"

text \<open>\<open>s.replace(a, b)\<close> and \<open>re.sub(a, b, s)\<close> for single characters \<open>a\<close> and \<open>b\<close>.\<close>

definition replace_char :: "char \<Rightarrow> char \<Rightarrow> string \<Rightarrow> string" where
  "replace_char a b s = map (\<lambda>c. if c = a then b else c) s"

text \<open>
  \<open>re.sub\<close> with a pattern \<open>c{n,}\<close> and the replacement \<open>c\<close> repeated \<open>m\<close> times. The
  pattern is greedy, so each match is a whole maximal run of at least \<open>n\<close> copies of \<open>c\<close>;
  a shorter run is copied. \<open>k\<close> counts the copies of \<open>c\<close> read in the current run.
\<close>

definition emit_run :: "char \<Rightarrow> nat \<Rightarrow> nat \<Rightarrow> nat \<Rightarrow> string" where
  "emit_run c n m k = replicate (if n \<le> k then m else k) c"

fun sub_runs :: "char \<Rightarrow> nat \<Rightarrow> nat \<Rightarrow> nat \<Rightarrow> string \<Rightarrow> string" where
  "sub_runs c n m k [] = emit_run c n m k"
| "sub_runs c n m k (x # xs) =
     (if x = c then sub_runs c n m (Suc k) xs
      else emit_run c n m k @ x # sub_runs c n m 0 xs)"

section \<open>Clause extractor: text cleaning\<close>

text \<open>
  \<open>clean_text\<close>: empty text gives empty text; otherwise tabs become spaces, carriage
  returns become newlines, \<open>\n{3,}\<close> becomes two newlines, \<open>[ ]{2,}\<close> becomes one space, and
  the result is stripped.
\<close>

definition clean_text :: "string \<Rightarrow> string" where
  "clean_text text_in =
     (if text_in = [] then []
      else py_strip (sub_runs SP 2 1 0 (sub_runs NL 3 2 0
             (replace_char CR NL (replace_char TAB SP text_in)))))"

text \<open>\<open>_is_heading\<close>: the stripped line is upper case and has 6 to 60 characters.\<close>

definition is_heading :: "string \<Rightarrow> bool" where
  "is_heading line_in = (let line = py_strip line_in in
     py_isupper line \<and> 5 < length line \<and> length line \<le> 60)"

section \<open>Clause extractor: type hint and quality\<close>

text \<open>
  \<open>guess_clause_type\<close>: every pattern is an alternation of literals searched in the
  lower-cased text, tried in the order of the source; \<open>non[- ]?compete\<close> is written out as
  its three literals. The payment pattern's last alternative is a three-character literal
  that contains U+201A, so it is left out.
\<close>

definition guess_clause_type :: "string \<Rightarrow> string" where
  "guess_clause_type text_in = (let t = py_lower text_in in
     if any_in [''security deposit'', ''advance deposit'', ''refundable'', ''refund''] t
     then ''Security Deposit & Refund''
     else if any_in [''salary'', ''wages'', ''rent'', ''payable'', ''payment'', ''electricity'',
                     ''charges'', ''meter reading'', ''rupees''] t
     then ''Payment & Financial Terms''
     else if any_in [''maintain'', ''maintenance'', ''good condition'', ''repair'', ''restore'',
                     ''handing over'', ''vacant possession'', ''deliver the premises''] t
     then ''Maintenance & Handover''
     else if any_in [''residential purpose'', ''not sub-let'', ''sublet'', ''illegal activities'',
                     ''alteration'', ''additional fittings'', ''structures''] t
     then ''Use of Premises & Restrictions''
     else if any_in [''terminate'', ''termination'', ''dismiss'', ''evicted'', ''eviction'',
                     ''without notice'', ''may terminate at any time''] t
     then ''Termination''
     else if any_in [''notice'', ''vacating'', ''vacate'', ''vacation'', ''required to give'',
                     ''three months notice'', ''90 days notice'', ''30 days notice''] t
     then ''Notice & Possession''
     else if any_in [''non-compete'', ''non compete'', ''noncompete'',
                     ''restriction after termination''] t
     then ''Non-Compete''
     else if any_in [''confidential'', ''non-disclosure'', ''nda''] t
     then ''Confidentiality''
     else if any_in [''indemnify'', ''indemnity'', ''hold harmless'', ''liable''] t
     then ''Indemnity & Liability''
     else if any_in [''governing law'', ''jurisdiction'', ''courts at''] t
     then ''Governing Law & Jurisdiction''
     else if any_in [''force majeure'', ''act of god''] t
     then ''Force Majeure''
     else ''General'')"

text \<open>
  \<open>analyze_clause_quality\<close>: the length, the number of \<open>.\<close>, \<open>!\<close> and \<open>?\<close>, and the warnings.
  The source also stores \<open>quality_score\<close>, a rounded floating-point number, and
  \<open>decide_action\<close> compares it with \<open>0.6\<close>; neither is read by the segmentation, and both are
  left out of the record.
\<close>

record quality =
  q_length :: nat
  q_sentences :: nat
  q_warnings :: "string list"

definition analyze_clause_quality :: "string \<Rightarrow> quality" where
  "analyze_clause_quality text_in =
     (let len = length text_in;
          sentences = length (filter (\<lambda>c. c \<in> set ''.!?'') text_in)
      in \<lparr> q_length = len, q_sentences = sentences,
           q_warnings =
             (if len < 50 then [''Clause is unusually short''] else []) @
             (if 1200 < len then [''Clause is unusually long (possible merge)''] else []) @
             (if sentences = 0 then [''No sentence structure detected''] else []) \<rparr>)"

section \<open>Clause extractor: the clause record and the line loop\<close>

record clause =
  clause_id :: nat
  title :: "string option"
  clause_text :: string
  type_hint :: string
  clause_quality :: quality
  source :: string

text \<open>The dictionary literal that every strategy appends.\<close>

definition mk_clause :: "nat \<Rightarrow> string option \<Rightarrow> string \<Rightarrow> string \<Rightarrow> clause" where
  "mk_clause cid ttl txt src =
     \<lparr> clause_id = cid, title = ttl, clause_text = txt,
       type_hint = guess_clause_type txt,
       clause_quality = analyze_clause_quality txt, source = src \<rparr>"

text \<open>
  \<open>number_pattern = ^\d+(\.\d+)*[\)\.]?\s+\<close>, used with \<open>match\<close>. \<open>skip_groups\<close> reads
  \<open>(\.\d+)*\<close> greedily. Reading fewer digits or groups leaves a digit, or a dot before a
  digit, in front of \<open>[\)\.]?\s+\<close>, which then fails, so the greedy reading decides the match.
\<close>

function skip_groups :: "string \<Rightarrow> string" where
  "skip_groups r =
     (case r of
        c # d # rest \<Rightarrow>
          if c = CHR ''.'' \<and> py_isdigit d then skip_groups (dropWhile py_isdigit rest) else r
      | _ \<Rightarrow> r)"
  by pat_completeness auto
termination
  by (relation "measure length") (auto simp: le_imp_less_Suc length_dropWhile_le less_SucI)

definition number_pattern_match :: "string \<Rightarrow> bool" where
  "number_pattern_match line =
     (line \<noteq> [] \<and> py_isdigit (hd line) \<and>
      (let r = skip_groups (dropWhile py_isdigit line);
           r' = (if r \<noteq> [] \<and> (hd r = CHR '')'' \<or> hd r = CHR ''.'') then tl r else r)
       in r' \<noteq> [] \<and> py_isspace (hd r')))"

text \<open>The variables of the line loop of \<open>extract_clauses\<close>.\<close>

record seg_state =
  clauses :: "clause list"
  current :: "string list"
  cur_title :: "string option"
  next_id :: nat
  cur_source :: string

definition seg_init :: seg_state where
  "seg_init = \<lparr> clauses = [], current = [], cur_title = None, next_id = 1,
                cur_source = ''paragraph'' \<rparr>"

text \<open>\<open>clauses.append({...})\<close> with the joined buffer, as all three places of the loop do.\<close>

definition append_clause :: "seg_state \<Rightarrow> seg_state" where
  "append_clause st =
     st \<lparr> clauses := clauses st @
            [mk_clause (next_id st) (cur_title st) (join_sp (current st)) (cur_source st)] \<rparr>"

text \<open>One iteration of \<open>for line in lines\<close>.\<close>

definition seg_step :: "seg_state \<Rightarrow> string \<Rightarrow> seg_state" where
  "seg_step st line_in = (let line = py_strip line_in in
     if line = [] then st
     else if is_heading line then
       (let st' = (if current st \<noteq> []
                   then (append_clause st) \<lparr> next_id := next_id st + 1, current := [] \<rparr>
                   else st)
        in st' \<lparr> cur_title := Some line, cur_source := ''heading'' \<rparr>)
     else if number_pattern_match line then
       (let st' = (if current st \<noteq> []
                   then (append_clause st) \<lparr> next_id := next_id st + 1 \<rparr>
                   else st)
        in st' \<lparr> current := [line], cur_title := None, cur_source := ''numbered'' \<rparr>)
     else st \<lparr> current := current st @ [line] \<rparr>)"

text \<open>The loop over the lines and the flush of the last block: the paragraph strategy.\<close>

definition paragraph_clauses :: "string \<Rightarrow> clause list" where
  "paragraph_clauses cleaned =
     (let st = foldl seg_step seg_init (py_split NL cleaned)
      in clauses (if current st \<noteq> [] then append_clause st else st))"

section \<open>Clause extractor: the fallback splits\<close>

text \<open>
  The sentence pattern is
  \<open>(?i)(?<=\.)\s+(?=the\s+(employee|employer)|employee\s+shall|employer\s+may|shall\s+receive|shall\s+not)\<close>.
  Under \<open>(?i)\<close> a lower-case letter of the pattern matches a character of the text whose
  lower case it is.
\<close>

definition ci_prefix :: "string \<Rightarrow> string \<Rightarrow> bool" where
  "ci_prefix p s = prefix p (py_lower s)"

text \<open>
  One alternative \<open>a\s+b\<close> of the look-ahead, tried at the front of \<open>s\<close>: the result is the
  text that \<open>b\<close> matched.
\<close>

definition phrase_ahead :: "string \<Rightarrow> string \<Rightarrow> string \<Rightarrow> string option" where
  "phrase_ahead a b s =
     (let r = drop (length a) s; r' = dropWhile py_isspace r in
      if ci_prefix a s \<and> r \<noteq> [] \<and> py_isspace (hd r) \<and> ci_prefix b r'
      then Some (take (length b) r') else None)"

text \<open>
  The look-ahead. \<open>None\<close>: no alternative matches. \<open>Some g\<close>: one matches and \<open>g\<close> is the
  value of the capturing group \<open>(employee|employer)\<close>, which only the first alternative
  sets; after any other alternative the group has no value, Python's \<open>None\<close>.
\<close>

definition legal_phrase_ahead :: "string \<Rightarrow> string option option" where
  "legal_phrase_ahead s =
     (case phrase_ahead ''the'' ''employee'' s of
        Some g \<Rightarrow> Some (Some g)
      | None \<Rightarrow>
     (case phrase_ahead ''the'' ''employer'' s of
        Some g \<Rightarrow> Some (Some g)
      | None \<Rightarrow>
        if phrase_ahead ''employee'' ''shall'' s \<noteq> None
           \<or> phrase_ahead ''employer'' ''may'' s \<noteq> None
           \<or> phrase_ahead ''shall'' ''receive'' s \<noteq> None
           \<or> phrase_ahead ''shall'' ''not'' s \<noteq> None
        then Some None else None))"

text \<open>
  \<open>re.split\<close> with the sentence pattern. A match starts at a white-space character that
  follows a full stop and is the whole run of white space there (after a shorter run the
  look-ahead meets white space and fails). \<open>re.split\<close> returns the pieces between the
  matches and, after each piece but the last, the value of the capturing group. \<open>prev\<close>
  is the character before the position, \<open>acc\<close> the piece being read.
\<close>

function re_split_sentences :: "char option \<Rightarrow> string \<Rightarrow> string \<Rightarrow> string option list" where
  "re_split_sentences prev acc [] = [Some acc]"
| "re_split_sentences prev acc (c # cs) =
     (if prev = Some (CHR ''.'') \<and> py_isspace c then
        (case legal_phrase_ahead (dropWhile py_isspace cs) of
           Some g \<Rightarrow>
             Some acc # g #
               re_split_sentences (Some (last (c # takeWhile py_isspace cs))) []
                 (dropWhile py_isspace cs)
         | None \<Rightarrow> re_split_sentences (Some c) (acc @ [c]) cs)
      else re_split_sentences (Some c) (acc @ [c]) cs)"
  by pat_completeness auto
termination
  by (relation "measure (\<lambda>(prev, acc, s). length s)")
     (auto simp: le_imp_less_Suc length_dropWhile_le)

text \<open>
  The OCR pattern is \<open>(?<=[\.\!\?])\s+|[...]+\<close>. Its character class holds the newline, the
  hyphen, U+00E2 and U+00A2, and three code points above U+00FF that are left out.
\<close>

definition ocr_break_char :: "char \<Rightarrow> bool" where
  "ocr_break_char c = (c = NL \<or> c = CHR 0xE2 \<or> c = CHR 0xA2 \<or> c = CHR ''-'')"

function re_split_ocr :: "char option \<Rightarrow> string \<Rightarrow> string \<Rightarrow> string list" where
  "re_split_ocr prev acc [] = [acc]"
| "re_split_ocr prev acc (c # cs) =
     (if (prev = Some (CHR ''.'') \<or> prev = Some (CHR ''!'') \<or> prev = Some (CHR ''?''))
         \<and> py_isspace c then
        acc # re_split_ocr (Some (last (c # takeWhile py_isspace cs))) []
                (dropWhile py_isspace cs)
      else if ocr_break_char c then
        acc # re_split_ocr (Some (last (c # takeWhile ocr_break_char cs))) []
                (dropWhile ocr_break_char cs)
      else re_split_ocr (Some c) (acc @ [c]) cs)"
  by pat_completeness auto
termination
  by (relation "measure (\<lambda>(prev, acc, s). length s)")
     (auto simp: le_imp_less_Suc length_dropWhile_le)

section \<open>Clause extractor: the extraction engine\<close>

text \<open>Calling \<open>strip\<close> on \<open>None\<close> raises \<open>AttributeError\<close>.\<close>

datatype error = AttributeError

text \<open>
  \<open>for idx, s in enumerate(sentences, 1)\<close>: \<open>s.strip()\<close>, skip the fragments shorter than
  40, append the others with \<open>clause_id = idx\<close>.
\<close>

fun sentence_loop :: "nat \<Rightarrow> string option list \<Rightarrow> clause list \<Rightarrow> error + clause list" where
  "sentence_loop idx [] new_clauses = Inr new_clauses"
| "sentence_loop idx (None # rest) new_clauses = Inl AttributeError"
| "sentence_loop idx (Some s # rest) new_clauses =
     (let s' = py_strip s in
      if length s' < 40 then sentence_loop (idx + 1) rest new_clauses
      else sentence_loop (idx + 1) rest
             (new_clauses @ [mk_clause idx None s' ''sentence-split'']))"

text \<open>
  \<open>for s in rough_sentences\<close>: strip, skip the fragments shorter than 25, append the others
  with \<open>clause_id = cid\<close> and count \<open>cid\<close> up.
\<close>

fun ocr_loop :: "nat \<Rightarrow> string list \<Rightarrow> clause list \<Rightarrow> clause list" where
  "ocr_loop cid [] rebuilt = rebuilt"
| "ocr_loop cid (s # rest) rebuilt =
     (let s' = py_strip s in
      if length s' < 25 then ocr_loop cid rest rebuilt
      else ocr_loop (cid + 1) rest (rebuilt @ [mk_clause cid None s' ''ocr-fallback'']))"

text \<open>The block under \<open>if len(clauses) <= 1\<close>, followed by the final \<open>return clauses\<close>.\<close>

definition ocr_fallback :: "string \<Rightarrow> clause list \<Rightarrow> clause list" where
  "ocr_fallback cleaned cls =
     (if length cls \<le> 1 then
        (let rebuilt = ocr_loop 1 (re_split_ocr None [] (py_strip cleaned)) [] in
         if 3 \<le> length rebuilt then rebuilt else cls)
      else cls)"

definition extract_clauses :: "string \<Rightarrow> error + clause list" where
  "extract_clauses text_in =
     (let cleaned = clean_text text_in; cls = paragraph_clauses cleaned in
      if length cls = 1 then
        (let sentences = re_split_sentences None [] (clause_text (hd cls)) in
         if 3 \<le> length sentences then
           (case sentence_loop 1 sentences [] of
              Inl e \<Rightarrow> Inl e
            | Inr new_clauses \<Rightarrow>
                if 1 < length new_clauses then Inr new_clauses
                else Inr (ocr_fallback cleaned cls))
         else Inr (ocr_fallback cleaned cls))
      else Inr cls)"

section \<open>Clause risk\<close>

definition classify_clause :: "string \<Rightarrow> string" where
  "classify_clause clause_in = (let t = py_lower clause_in in
     if any_in [''terminate'', ''termination''] t then ''Termination''
     else if any_in [''non-compete'', ''non compete'', ''shall not compete'',
                     ''restriction after termination''] t
     then ''Non-Compete''
     else if any_in [''confidential'', ''non-disclosure'', ''confidential information''] t
     then ''Confidentiality''
     else if any_in [''salary'', ''compensation'', ''fees'', ''payment'', ''remuneration''] t
     then ''Compensation''
     else if any_in [''indemnify'', ''liability'', ''damages'', ''losses''] t
     then ''Indemnity & Liability''
     else if any_in [''arbitration'', ''jurisdiction'', ''governing law''] t
     then ''Dispute Resolution''
     else ''General'')"

definition critical_red_flags :: "string list" where
  "critical_red_flags = [''sole discretion'', ''without notice'', ''at any time'',
     ''irrevocable'', ''in perpetuity'', ''unlimited liability'']"

definition ambiguity_terms :: "string list" where
  "ambiguity_terms = [''reasonable'', ''best efforts'', ''as soon as possible'',
     ''from time to time'', ''material'']"

text \<open>
  The currency markers of the compensation rule. The source lists the rupee sign U+20B9
  first; it is above U+00FF and left out.
\<close>

definition currency_markers :: "string list" where
  "currency_markers = [''inr'', ''rs.'', ''$'']"

text \<open>The local variables \<open>score\<close>, \<open>reasons\<close>, \<open>suggestions\<close> and \<open>tags\<close> of \<open>assess_risk\<close>.\<close>

record risk_acc =
  acc_score :: int
  acc_reasons :: "string list"
  acc_suggestions :: "string list"
  acc_tags :: "string list"

text \<open>\<open>score += n\<close> together with the \<open>append\<close> calls of the same block, each list in order.\<close>

definition bump :: "int \<Rightarrow> string list \<Rightarrow> string list \<Rightarrow> string list \<Rightarrow> risk_acc \<Rightarrow> risk_acc" where
  "bump n rs ss ts a =
     \<lparr> acc_score = acc_score a + n, acc_reasons = acc_reasons a @ rs,
       acc_suggestions = acc_suggestions a @ ss, acc_tags = acc_tags a @ ts \<rparr>"

text \<open>
  The \<open>if\<close>/\<open>elif\<close> chain over the clause type; \<open>t\<close> is the lower-cased clause. One
  suggestion of the source holds an en dash (U+2013), written here as a hyphen.
\<close>

definition type_rules :: "string \<Rightarrow> string \<Rightarrow> risk_acc \<Rightarrow> risk_acc" where
  "type_rules ctype t a =
     (if ctype = ''Termination'' then
        (let a1 = bump 20 [] [] [''Employment Risk''] a in
         if any_in [''without notice'', ''immediate termination''] t
         then bump 30 [''Termination without adequate notice.'']
                [''Introduce minimum notice period (e.g., 30 days).''] [''High Impact''] a1
         else a1)
      else if ctype = ''Non-Compete'' then
        bump 35 [''Restricts future employment opportunities.'']
          [''Limit non-compete by duration, geography, and business scope.'']
          [''Post-Termination Risk''] a
      else if ctype = ''Confidentiality'' then
        (let a1 = bump 10 [''Standard confidentiality obligation.''] [] [''IP Protection''] a in
         if py_in ''forever'' t \<or> py_in ''in perpetuity'' t
         then bump 15 [''Confidentiality obligation has no end date.'']
                [''Limit confidentiality to 2-5 years.''] [] a1
         else a1)
      else if ctype = ''Compensation'' then
        (if \<not> any_in currency_markers t
         then bump 25 [''Compensation amount is unclear or missing.'']
                [''Specify clear payment amount and schedule.''] [''Financial Risk''] a
         else bump 5 [''Compensation terms are defined.''] [] [] a)
      else if ctype = ''Indemnity & Liability'' then
        bump 30 [''Broad indemnity or liability exposure.'']
          [''Cap liability and exclude indirect or consequential damages.'']
          [''Financial Exposure''] a
      else if ctype = ''Dispute Resolution'' then
        (let a1 = bump 10 [] [] [''Legal Process''] a in
         if py_in ''sole arbitrator appointed by'' t
         then bump 20 [''Unilateral arbitrator appointment.'']
                [''Provide mutual appointment mechanism.''] [] a1
         else a1)
      else bump 5 [''General contractual obligation.''] [] [] a)"

definition ambiguity_penalty :: "string \<Rightarrow> risk_acc \<Rightarrow> risk_acc" where
  "ambiguity_penalty t a =
     (if any_in ambiguity_terms t
      then bump 10 [''Uses ambiguous or subjective language.'']
             [''Replace vague terms with measurable obligations.''] [''Ambiguity''] a
      else a)"

definition red_flag_boost :: "string \<Rightarrow> risk_acc \<Rightarrow> risk_acc" where
  "red_flag_boost t a =
     (if any_in critical_red_flags t
      then bump 20 [''Contains critical red-flag language.''] [] [''Critical''] a
      else a)"

text \<open>The state of the local variables when the scoring rules are done.\<close>

definition score_rules :: "string \<Rightarrow> risk_acc" where
  "score_rules clause_in =
     (let t = py_lower clause_in in
      red_flag_boost t (ambiguity_penalty t (type_rules (classify_clause clause_in) t
        \<lparr> acc_score = 0, acc_reasons = [], acc_suggestions = [], acc_tags = [] \<rparr>)))"

text \<open>
  \<open>round(x, 2)\<close>. The source computes the confidence in binary floating point; the model
  computes it in exact rationals and rounds a tie to the even neighbour. The scores that
  the rules can produce are the multiples of 5 up to 80, and on each of them the two
  computations give the same two decimals.
\<close>

definition round_half_even :: "rat \<Rightarrow> int" where
  "round_half_even x =
     (let f = \<lfloor>x\<rfloor>; d = x - of_int f in
      if d < 1 / 2 then f else if 1 / 2 < d then f + 1 else if even f then f else f + 1)"

definition py_round2 :: "rat \<Rightarrow> rat" where
  "py_round2 x = of_int (round_half_even (x * 100)) / 100"

record risk_assessment =
  clause_type :: string
  risk_level :: string
  score :: int
  confidence :: rat
  negotiation_priority :: string
  reasons :: "string list"
  suggestions :: "string list"
  tags :: "string list"

definition assess_risk :: "string \<Rightarrow> risk_assessment" where
  "assess_risk clause_in =
     (let a = score_rules clause_in;
          sc = acc_score a;
          level = (if 60 \<le> sc then ''High'' else if 30 \<le> sc then ''Medium'' else ''Low'');
          priority = (if 60 \<le> sc then ''Immediate'' else if 30 \<le> sc then ''Recommended''
                      else ''Optional'');
          conf = min (95 / 100) (6 / 10 + of_int sc / 120)
      in \<lparr> clause_type = classify_clause clause_in, risk_level = level, score = sc,
           confidence = py_round2 conf, negotiation_priority = priority,
           reasons = acc_reasons a,
           suggestions = (if acc_suggestions a \<noteq> [] then acc_suggestions a
                          else [''No immediate action required.'']),
           tags = acc_tags a \<rparr>)"

section \<open>Ambiguity detector\<close>

record term_meta =
  category :: string
  severity :: int
  suggestion :: string

text \<open>The dictionary \<open>AMBIGUOUS_TERMS\<close>, in the order of its literal, which is its iteration order.\<close>

definition AMBIGUOUS_TERMS :: "(string \<times> term_meta) list" where
  "AMBIGUOUS_TERMS = [
     (''reasonable'', \<lparr> category = ''Subjective'', severity = 2,
        suggestion = ''Define objective standards or measurable criteria.'' \<rparr>),
     (''reasonably'', \<lparr> category = ''Subjective'', severity = 2,
        suggestion = ''Specify exact conditions instead of subjective judgment.'' \<rparr>),
     (''best efforts'', \<lparr> category = ''Obligation'', severity = 3,
        suggestion = ''Replace with clearly defined obligations or milestones.'' \<rparr>),
     (''commercially reasonable'', \<lparr> category = ''Subjective'', severity = 3,
        suggestion = ''Define industry benchmarks or financial limits.'' \<rparr>),
     (''from time to time'', \<lparr> category = ''Timeline'', severity = 2,
        suggestion = ''Specify frequency or fixed intervals.'' \<rparr>),
     (''as soon as possible'', \<lparr> category = ''Timeline'', severity = 3,
        suggestion = ''Replace with a defined number of days.'' \<rparr>),
     (''material'', \<lparr> category = ''Scope'', severity = 2,
        suggestion = ''Define what constitutes a material breach or change.'' \<rparr>),
     (''significant'', \<lparr> category = ''Scope'', severity = 2,
        suggestion = ''Quantify what is considered significant.'' \<rparr>),
     (''substantial'', \<lparr> category = ''Scope'', severity = 2,
        suggestion = ''Replace with numerical or objective thresholds.'' \<rparr>),
     (''at its discretion'', \<lparr> category = ''Discretion'', severity = 3,
        suggestion = ''Limit discretion with conditions or mutual consent.'' \<rparr>)]"

definition detect_ambiguity :: "string \<Rightarrow> string list" where
  "detect_ambiguity clause_in =
     (if clause_in = [] then []
      else filter (\<lambda>term. py_in term (py_lower clause_in)) (map fst AMBIGUOUS_TERMS))"

text \<open>
  The result of \<open>analyze_ambiguity\<close>. The source returns \<open>list(categories)\<close> and
  \<open>list(set(suggestions))\<close>, lists without duplicates whose order Python leaves open; the
  model keeps the two sets.
\<close>

record ambiguity_analysis =
  found_terms :: "string list"
  severity_score :: int
  ambiguity_level :: string
  categories :: "string set"
  suggestion_set :: "string set"
  explanation :: string

text \<open>The local variables of the loop over \<open>AMBIGUOUS_TERMS.items()\<close> and one iteration.\<close>

record amb_acc =
  amb_found :: "string list"
  amb_score :: int
  amb_categories :: "string set"
  amb_suggestions :: "string list"

definition amb_step :: "string \<Rightarrow> amb_acc \<Rightarrow> string \<times> term_meta \<Rightarrow> amb_acc" where
  "amb_step t a item =
     (if py_in (fst item) t
      then \<lparr> amb_found = amb_found a @ [fst item],
             amb_score = amb_score a + severity (snd item),
             amb_categories = insert (category (snd item)) (amb_categories a),
             amb_suggestions = amb_suggestions a @ [suggestion (snd item)] \<rparr>
      else a)"

definition analyze_ambiguity :: "string \<Rightarrow> ambiguity_analysis" where
  "analyze_ambiguity clause_in =
     (if clause_in = [] then
        \<lparr> found_terms = [], severity_score = 0, ambiguity_level = ''Low'', categories = {},
          suggestion_set = {}, explanation = ''No clause text provided.'' \<rparr>
      else
        (let a = foldl (amb_step (py_lower clause_in))
                   \<lparr> amb_found = [], amb_score = 0, amb_categories = {},
                     amb_suggestions = [] \<rparr> AMBIGUOUS_TERMS
         in \<lparr> found_terms = amb_found a, severity_score = amb_score a,
              ambiguity_level = (if 6 \<le> amb_score a then ''High''
                                 else if 3 \<le> amb_score a then ''Medium'' else ''Low''),
              categories = amb_categories a,
              suggestion_set = set (amb_suggestions a),
              explanation =
                (if amb_found a \<noteq> []
                 then ''Clause contains vague language that may lead to multiple interpretations and potential disputes.''
                 else ''No ambiguous legal language detected.'') \<rparr>))"

section \<open>Notions used in the statements and proofs\<close>

text \<open>
  A phrase occurs case-insensitively in a text when some contiguous part of the text has
  the same lower case as the phrase.
\<close>

definition occurs_ci :: "string \<Rightarrow> string \<Rightarrow> bool" where
  "occurs_ci phrase txt = (\<exists>u. sublist u txt \<and> py_lower u = py_lower phrase)"





text \<open>
  \<open>glue_free k b\<close>: the keyword \<open>k\<close> does not occur in \<open>b\<close>, and no proper non-empty end
  of \<open>k\<close> is a beginning of \<open>b\<close>. Then appending \<open>b\<close> to a text creates no occurrence of \<open>k\<close>.
\<close>

definition glue_free :: "string \<Rightarrow> string \<Rightarrow> bool" where
  "glue_free k b = (\<not> py_in k b \<and> list_all (\<lambda>i. \<not> prefix (drop i k) b) [1..<length k])"


section \<open>Facts about the string functions\<close>

subsection \<open>Runs of one character\<close>















subsection \<open>Stripping\<close>








section \<open>The text normalizer\<close>








section \<open>The risk scorer\<close>

lemma bump_score: "acc_score (bump n rs ss ts a) = acc_score a + n"
  by (simp add: bump_def)

lemma type_rules_score_ge: "acc_score a \<le> acc_score (type_rules ct t a)"
  by (simp add: type_rules_def bump_score Let_def)

lemma ambiguity_penalty_score_ge: "acc_score a \<le> acc_score (ambiguity_penalty t a)"
  by (simp add: ambiguity_penalty_def bump_score)

lemma red_flag_boost_score_ge: "acc_score a \<le> acc_score (red_flag_boost t a)"
  by (simp add: red_flag_boost_def bump_score)

lemma score_rules_nonneg: "0 \<le> acc_score (score_rules t)"
proof -
  let ?a0 = "\<lparr> acc_score = 0, acc_reasons = [], acc_suggestions = [], acc_tags = [] \<rparr>"
  let ?a1 = "type_rules (classify_clause t) (py_lower t) ?a0"
  let ?a2 = "ambiguity_penalty (py_lower t) ?a1"
  have 1: "0 \<le> acc_score ?a1" using type_rules_score_ge[of ?a0] by simp
  have 2: "acc_score ?a1 \<le> acc_score ?a2" by (rule ambiguity_penalty_score_ge)
  have 3: "acc_score ?a2 \<le> acc_score (red_flag_boost (py_lower t) ?a2)"
    by (rule red_flag_boost_score_ge)
  have eq: "score_rules t = red_flag_boost (py_lower t) ?a2" by (simp add: score_rules_def Let_def)
  show ?thesis unfolding eq using 1 2 3 by linarith
qed

lemma round_half_even_cases: "round_half_even x = \<lfloor>x\<rfloor> \<or> round_half_even x = \<lfloor>x\<rfloor> + 1"
  by (simp add: round_half_even_def Let_def)

lemma round_half_even_lower: "of_int n \<le> x \<Longrightarrow> n \<le> round_half_even x"
proof -
  assume "of_int n \<le> x"
  then have "n \<le> \<lfloor>x\<rfloor>" by (simp add: le_floor_iff)
  then show ?thesis using round_half_even_cases[of x] by linarith
qed

lemma round_half_even_upper: "x \<le> of_int m \<Longrightarrow> round_half_even x \<le> m"
proof (cases "x - of_int \<lfloor>x\<rfloor> < 1 / 2")
  case True
  assume a: "x \<le> of_int m"
  then have "\<lfloor>x\<rfloor> \<le> m" by (simp add: floor_le_iff)
  moreover have "round_half_even x = \<lfloor>x\<rfloor>" using True by (simp add: round_half_even_def Let_def)
  ultimately show ?thesis by simp
next
  case False
  assume a: "x \<le> of_int m"
  have "of_int \<lfloor>x\<rfloor> < x" using False by simp
  then have "of_int \<lfloor>x\<rfloor> < (of_int m :: rat)" using a by (rule less_le_trans)
  then have "\<lfloor>x\<rfloor> < m" by (simp only: of_int_less_iff)
  then show ?thesis using round_half_even_cases[of x] by linarith
qed

lemma py_round2_bounds:
  assumes "6 / 10 \<le> x" "x \<le> 95 / 100"
  shows "6 / 10 \<le> py_round2 x \<and> py_round2 x \<le> 95 / 100"
proof -
  have "of_int 60 \<le> x * 100" using assms(1) by simp
  then have l: "60 \<le> round_half_even (x * 100)" by (rule round_half_even_lower)
  have "x * 100 \<le> of_int 95" using assms(2) by simp
  then have u: "round_half_even (x * 100) \<le> 95" by (rule round_half_even_upper)
  have "(of_int 60 :: rat) \<le> of_int (round_half_even (x * 100))" using l by (simp only: of_int_le_iff)
  moreover have "(of_int (round_half_even (x * 100)) :: rat) \<le> of_int 95" using u by (simp only: of_int_le_iff)
  ultimately show ?thesis unfolding py_round2_def by simp
qed

text \<open>
  Claim C4. For the clause \<open>The company may terminate this agreement at any time without
  notice.\<close> \<open>assess_risk\<close> returns the type \<open>Termination\<close>, the score 70 (base 20,
  without-notice boost 30, red-flag boost 20), which is at least 70, the level \<open>High\<close> and
  the priority \<open>Immediate\<close>.
\<close>

theorem scenario_termination_without_notice:
  "clause_type (assess_risk ''The company may terminate this agreement at any time without notice.'') = ''Termination''
   \<and> score (assess_risk ''The company may terminate this agreement at any time without notice.'') = 70
   \<and> 70 \<le> score (assess_risk ''The company may terminate this agreement at any time without notice.'')
   \<and> risk_level (assess_risk ''The company may terminate this agreement at any time without notice.'') = ''High''
   \<and> negotiation_priority (assess_risk ''The company may terminate this agreement at any time without notice.'') = ''Immediate''"
  by code_simp

text \<open>
  Claim C5, as stated, fails: the returned confidence is rounded to two decimals. For the
  empty clause the score is 5 and the confidence is 0.64, not 0.6 + 5/120.
\<close>

theorem confidence_unrounded_counterexample:
  "confidence (assess_risk '''') \<noteq> min (95 / 100) (6 / 10 + of_int (score (assess_risk '''')) / 120)"
  by code_simp

text \<open>
  Claim C5, amended. For every clause the level and the priority are determined by the
  score (at least 60: \<open>High\<close> and \<open>Immediate\<close>; from 30 to 59: \<open>Medium\<close> and \<open>Recommended\<close>;
  below 30: \<open>Low\<close> and \<open>Optional\<close>), and the confidence is \<open>min(0.95, 0.6 + score/120)\<close>
  rounded to two decimals, a value between 0.6 and 0.95.
\<close>

theorem assess_risk_tiers_rounded_confidence:
  "(60 \<le> score (assess_risk t) \<longrightarrow>
      risk_level (assess_risk t) = ''High'' \<and> negotiation_priority (assess_risk t) = ''Immediate'')
   \<and> (30 \<le> score (assess_risk t) \<and> score (assess_risk t) < 60 \<longrightarrow>
      risk_level (assess_risk t) = ''Medium'' \<and> negotiation_priority (assess_risk t) = ''Recommended'')
   \<and> (score (assess_risk t) < 30 \<longrightarrow>
      risk_level (assess_risk t) = ''Low'' \<and> negotiation_priority (assess_risk t) = ''Optional'')
   \<and> confidence (assess_risk t) = py_round2 (min (95 / 100) (6 / 10 + of_int (score (assess_risk t)) / 120))
   \<and> 6 / 10 \<le> confidence (assess_risk t) \<and> confidence (assess_risk t) \<le> 95 / 100"
proof -
  let ?s = "acc_score (score_rules t)"
  let ?c = "min (95 / 100) (6 / 10 + of_int ?s / 120) :: rat"
  have "(0::rat) \<le> of_int ?s / 120" using score_rules_nonneg[of t] by simp
  then have "(6 / 10 :: rat) \<le> 6 / 10 + of_int ?s / 120" by linarith
  moreover have "(6 / 10 :: rat) \<le> 95 / 100" by simp
  ultimately have "6 / 10 \<le> ?c" by (intro min.boundedI)
  moreover have "?c \<le> 95 / 100" by (rule min.cobounded1)
  ultimately have "6 / 10 \<le> py_round2 ?c \<and> py_round2 ?c \<le> 95 / 100" by (rule py_round2_bounds)
  then show ?thesis by (simp add: assess_risk_def Let_def)
qed

theorem assess_risk_tiers_rounded_confidence_witness:
  "60 \<le> score (assess_risk ''The company may terminate this agreement at any time without notice.'')
   \<and> risk_level (assess_risk ''The company may terminate this agreement at any time without notice.'') = ''High''
   \<and> negotiation_priority (assess_risk ''The company may terminate this agreement at any time without notice.'') = ''Immediate''
   \<and> 30 \<le> score (assess_risk ''shall not compete'') \<and> score (assess_risk ''shall not compete'') < 60
   \<and> risk_level (assess_risk ''shall not compete'') = ''Medium''
   \<and> negotiation_priority (assess_risk ''shall not compete'') = ''Recommended''
   \<and> score (assess_risk '''') < 30
   \<and> risk_level (assess_risk '''') = ''Low''
   \<and> negotiation_priority (assess_risk '''') = ''Optional''
   \<and> confidence (assess_risk '''') = 64 / 100"
proof -
  have s1: "score (assess_risk ''The company may terminate this agreement at any time without notice.'') = 70"
    by code_simp
  have s2: "score (assess_risk ''shall not compete'') = 35" by code_simp
  have s3: "score (assess_risk '''') = 5" by code_simp
  have r: "py_round2 (min (95 / 100) (6 / 10 + of_int 5 / 120)) = 64 / 100" by code_simp
  show ?thesis
    using assess_risk_tiers_rounded_confidence[of "''The company may terminate this agreement at any time without notice.''"]
      assess_risk_tiers_rounded_confidence[of "''shall not compete''"]
      assess_risk_tiers_rounded_confidence[of "''''"]
    unfolding s1 s2 s3 r by simp
qed

text \<open>
  Claim C10. The suggestions returned by \<open>assess_risk\<close> are never empty: when no scoring
  rule appended a suggestion, the list is the single entry \<open>No immediate action
  required.\<close>, and otherwise it is the list the rules built.
\<close>

theorem assess_risk_suggestions_nonempty:
  "suggestions (assess_risk t) \<noteq> []
   \<and> (acc_suggestions (score_rules t) = [] \<longrightarrow>
        suggestions (assess_risk t) = [''No immediate action required.''])
   \<and> (acc_suggestions (score_rules t) \<noteq> [] \<longrightarrow>
        suggestions (assess_risk t) = acc_suggestions (score_rules t))"
  by (simp add: assess_risk_def Let_def)

theorem assess_risk_suggestions_nonempty_witness:
  "acc_suggestions (score_rules '''') = []
   \<and> suggestions (assess_risk '''') = [''No immediate action required.'']
   \<and> acc_suggestions (score_rules ''reasonable'') \<noteq> []
   \<and> suggestions (assess_risk ''reasonable'') = [''Replace vague terms with measurable obligations.'']"
proof -
  have e1: "acc_suggestions (score_rules '''') = []" by code_simp
  have e2: "acc_suggestions (score_rules ''reasonable'')
              = [''Replace vague terms with measurable obligations.'']" by code_simp
  show ?thesis
    using assess_risk_suggestions_nonempty[of "''''"]
      assess_risk_suggestions_nonempty[of "''reasonable''"]
    unfolding e1 e2 by simp
qed

section \<open>The ambiguity detector\<close>

lemma py_in_sublist: "py_in k s = sublist k s"
  by (induction s) (simp_all add: sublist_Cons_right)

lemma sublist_map_iff: "sublist k (map f s) \<longleftrightarrow> (\<exists>u. sublist u s \<and> map f u = k)"
proof
  assume "sublist k (map f s)"
  then obtain ps ss where "map f s = ps @ k @ ss" by (auto simp: sublist_def)
  then obtain a b c where "s = a @ b @ c" "map f b = k"
    by (metis map_eq_append_conv)
  then show "\<exists>u. sublist u s \<and> map f u = k" by (auto simp: sublist_def)
next
  assume "\<exists>u. sublist u s \<and> map f u = k"
  then show "sublist k (map f s)" using map_mono_sublist by blast
qed

lemma py_in_lower_occurs:
  "py_lower p = p \<Longrightarrow> py_in p (py_lower t) = occurs_ci p t"
  by (simp add: py_in_sublist occurs_ci_def py_lower_def sublist_map_iff)

lemma lexicon_lower: "list_all (\<lambda>item. py_lower (fst item) = fst item) AMBIGUOUS_TERMS"
  by code_simp

lemma lexicon_match:
  "item \<in> set AMBIGUOUS_TERMS \<Longrightarrow> py_in (fst item) (py_lower t) = occurs_ci (fst item) t"
  using lexicon_lower by (intro py_in_lower_occurs) (simp add: list_all_iff)

lemma lexicon_nonempty: "list_all (\<lambda>item. fst item \<noteq> []) AMBIGUOUS_TERMS"
  by code_simp

lemma occurs_ci_Nil: "occurs_ci p [] \<longleftrightarrow> p = []"
  by (auto simp: occurs_ci_def py_lower_def)

lemma lexicon_filter:
  "filter (\<lambda>item. py_in (fst item) (py_lower t)) AMBIGUOUS_TERMS
     = filter (\<lambda>item. occurs_ci (fst item) t) AMBIGUOUS_TERMS"
  by (rule filter_cong) (simp_all add: lexicon_match)

lemma lexicon_filter_Nil: "filter (\<lambda>item. occurs_ci (fst item) []) AMBIGUOUS_TERMS = []"
  using lexicon_nonempty by (simp add: occurs_ci_Nil list_all_iff filter_empty_conv)

lemma amb_fold:
  "foldl (amb_step t) a items =
     \<lparr> amb_found = amb_found a @ map fst (filter (\<lambda>item. py_in (fst item) t) items),
       amb_score = amb_score a + sum_list (map (\<lambda>item. severity (snd item)) (filter (\<lambda>item. py_in (fst item) t) items)),
       amb_categories = amb_categories a \<union> set (map (\<lambda>item. category (snd item)) (filter (\<lambda>item. py_in (fst item) t) items)),
       amb_suggestions = amb_suggestions a @ map (\<lambda>item. suggestion (snd item)) (filter (\<lambda>item. py_in (fst item) t) items) \<rparr>"
proof (induction items arbitrary: a)
  case Nil
  then show ?case by simp
next
  case (Cons item items)
  show ?case
  proof (cases "py_in (fst item) t")
    case True
    have e: "amb_step t a item =
       \<lparr> amb_found = amb_found a @ [fst item], amb_score = amb_score a + severity (snd item),
         amb_categories = insert (category (snd item)) (amb_categories a),
         amb_suggestions = amb_suggestions a @ [suggestion (snd item)] \<rparr>"
      using True by (simp add: amb_step_def)
    show ?thesis unfolding foldl_Cons Cons.IH e using True by simp
  next
    case False
    have e: "amb_step t a item = a" using False by (simp add: amb_step_def)
    show ?thesis unfolding foldl_Cons Cons.IH e using False by simp
  qed
qed

lemma detect_ambiguity_filter:
  "detect_ambiguity t = map fst (filter (\<lambda>item. occurs_ci (fst item) t) AMBIGUOUS_TERMS)"
proof (cases "t = []")
  case True
  then show ?thesis by (simp add: detect_ambiguity_def lexicon_filter_Nil)
next
  case False
  then show ?thesis
    by (simp add: detect_ambiguity_def filter_map comp_def lexicon_filter)
qed

text \<open>
  Claim C9. \<open>detect_ambiguity\<close> returns the lexicon phrases that occur in the clause
  case-insensitively, in lexicon order; on the scenario sentence the result holds both
  \<open>best efforts\<close> and \<open>commercially reasonable\<close>. \<open>analyze_ambiguity\<close> finds the same phrases,
  sums their severities into \<open>severity_score\<close>, maps a score of at least 6 to \<open>High\<close>, of at
  least 3 to \<open>Medium\<close> and any other to \<open>Low\<close>, and returns the set of their suggestions.
\<close>

theorem ambiguity_detection_and_scoring:
  "detect_ambiguity t = filter (\<lambda>p. occurs_ci p t) (map fst AMBIGUOUS_TERMS)
   \<and> ''best efforts'' \<in> set (detect_ambiguity
         ''The Supplier shall use best efforts and act in a commercially reasonable manner.'')
   \<and> ''commercially reasonable'' \<in> set (detect_ambiguity
         ''The Supplier shall use best efforts and act in a commercially reasonable manner.'')
   \<and> found_terms (analyze_ambiguity t) = detect_ambiguity t
   \<and> severity_score (analyze_ambiguity t)
       = sum_list (map (\<lambda>item. severity (snd item)) (filter (\<lambda>item. occurs_ci (fst item) t) AMBIGUOUS_TERMS))
   \<and> ambiguity_level (analyze_ambiguity t)
       = (if 6 \<le> severity_score (analyze_ambiguity t) then ''High''
          else if 3 \<le> severity_score (analyze_ambiguity t) then ''Medium'' else ''Low'')
   \<and> suggestion_set (analyze_ambiguity t)
       = set (map (\<lambda>item. suggestion (snd item)) (filter (\<lambda>item. occurs_ci (fst item) t) AMBIGUOUS_TERMS))"
proof -
  have d: "detect_ambiguity t = filter (\<lambda>p. occurs_ci p t) (map fst AMBIGUOUS_TERMS)"
    by (simp add: detect_ambiguity_filter filter_map comp_def)
  have s: "detect_ambiguity ''The Supplier shall use best efforts and act in a commercially reasonable manner.''
             = [''reasonable'', ''best efforts'', ''commercially reasonable'']"
    by code_simp
  have a: "found_terms (analyze_ambiguity t) = detect_ambiguity t
     \<and> severity_score (analyze_ambiguity t)
       = sum_list (map (\<lambda>item. severity (snd item)) (filter (\<lambda>item. occurs_ci (fst item) t) AMBIGUOUS_TERMS))
     \<and> ambiguity_level (analyze_ambiguity t)
       = (if 6 \<le> severity_score (analyze_ambiguity t) then ''High''
          else if 3 \<le> severity_score (analyze_ambiguity t) then ''Medium'' else ''Low'')
     \<and> suggestion_set (analyze_ambiguity t)
       = set (map (\<lambda>item. suggestion (snd item)) (filter (\<lambda>item. occurs_ci (fst item) t) AMBIGUOUS_TERMS))"
  proof (cases "t = []")
    case True
    then show ?thesis
      by (simp add: analyze_ambiguity_def detect_ambiguity_def lexicon_filter_Nil)
  next
    case False
    then show ?thesis
      by (simp add: analyze_ambiguity_def Let_def amb_fold lexicon_filter detect_ambiguity_filter)
  qed
  show ?thesis using d a unfolding s by simp
qed

theorem ambiguity_detection_and_scoring_witness:
  "detect_ambiguity ''The Supplier shall use best efforts and act in a commercially reasonable manner.''
     = [''reasonable'', ''best efforts'', ''commercially reasonable'']
   \<and> found_terms (analyze_ambiguity ''The Supplier shall use best efforts and act in a commercially reasonable manner.'')
     = [''reasonable'', ''best efforts'', ''commercially reasonable'']
   \<and> severity_score (analyze_ambiguity ''The Supplier shall use best efforts and act in a commercially reasonable manner.'') = 8
   \<and> ambiguity_level (analyze_ambiguity ''The Supplier shall use best efforts and act in a commercially reasonable manner.'') = ''High''"
proof -
  have s: "detect_ambiguity ''The Supplier shall use best efforts and act in a commercially reasonable manner.''
             = [''reasonable'', ''best efforts'', ''commercially reasonable'']"
    by code_simp
  have v: "severity_score (analyze_ambiguity ''The Supplier shall use best efforts and act in a commercially reasonable manner.'') = 8"
    by code_simp
  show ?thesis
    using ambiguity_detection_and_scoring[of "''The Supplier shall use best efforts and act in a commercially reasonable manner.''"]
    unfolding s v by simp
qed

section \<open>Appending a red-flag phrase\<close>

lemma py_in_append_left: "py_in k a \<Longrightarrow> py_in k (a @ b)"
  by (simp add: py_in_sublist sublist_append)

lemma py_in_append_right: "py_in k b \<Longrightarrow> py_in k (a @ b)"
  by (simp add: py_in_sublist sublist_append)

lemma any_in_append_left: "any_in ks a \<Longrightarrow> any_in ks (a @ b)"
  by (auto simp: any_in_def list_ex_iff intro: py_in_append_left)

lemma glue_free_append:
  assumes "glue_free k b"
  shows "py_in k (a @ b) = py_in k a"
proof
  assume "py_in k (a @ b)"
  then have "sublist k a \<or> sublist k b
      \<or> (\<exists>k1 k2. k = k1 @ k2 \<and> suffix k1 a \<and> prefix k2 b)"
    by (simp add: py_in_sublist sublist_append)
  moreover have "\<not> sublist k b" using assms by (simp add: glue_free_def py_in_sublist)
  moreover have "sublist k a" if h: "k = k1 @ k2" "suffix k1 a" "prefix k2 b" for k1 k2
  proof (cases "k2 = []")
    case True
    then show ?thesis using h by auto
  next
    case False
    have "k1 \<noteq> []"
    proof
      assume "k1 = []"
      then have "prefix k b" using h by simp
      then show False using \<open>\<not> sublist k b\<close> by auto
    qed
    then have "length k1 \<in> set [1..<length k]" using False h(1) by (auto simp: Suc_le_eq)
    moreover have "drop (length k1) k = k2" using h(1) by simp
    ultimately have "\<not> prefix k2 b" using assms by (auto simp: glue_free_def list_all_iff)
    then show ?thesis using h(3) by simp
  qed
  ultimately show "py_in k a" by (auto simp: py_in_sublist)
next
  assume "py_in k a"
  then show "py_in k (a @ b)" by (rule py_in_append_left)
qed

lemma any_in_glue_free:
  "list_all (\<lambda>k. glue_free k b) ks \<Longrightarrow> any_in ks (a @ b) = any_in ks a"
  by (induction ks) (simp_all add: any_in_def glue_free_append)

lemma py_lower_append: "py_lower b = b \<Longrightarrow> py_lower (t @ b) = py_lower t @ b"
  by (simp add: py_lower_def)

lemma score_formula:
  "score (assess_risk t) =
     acc_score (type_rules (classify_clause t) (py_lower t)
        \<lparr> acc_score = 0, acc_reasons = [], acc_suggestions = [], acc_tags = [] \<rparr>)
     + (if any_in ambiguity_terms (py_lower t) then 10 else 0)
     + (if any_in critical_red_flags (py_lower t) then 20 else 0)"
  by (simp add: assess_risk_def score_rules_def Let_def red_flag_boost_def ambiguity_penalty_def
      bump_score)

lemma type_rules_mono:
  assumes "any_in currency_markers (L @ b) = any_in currency_markers L"
  shows "acc_score (type_rules ct L a) \<le> acc_score (type_rules ct (L @ b) a)"
  using assms py_in_append_left[of _ L b] any_in_append_left[of _ L b]
  by (simp add: type_rules_def Let_def bump_score)


lemma glue_early_keywords:
  "list_all (\<lambda>p. list_all (\<lambda>k. glue_free k (SP # p)) ([''terminate'', ''termination'', ''non-compete'', ''non compete'',
        ''shall not compete'', ''restriction after termination'', ''confidential'',
        ''non-disclosure'', ''confidential information'', ''salary'', ''compensation'',
        ''fees'', ''payment'', ''remuneration''] @ currency_markers)) critical_red_flags"
  by code_simp

lemma glue_late_keywords:
  "list_all (\<lambda>p. list_all (\<lambda>k. glue_free k (SP # p)) [''indemnify'', ''liability'', ''damages'', ''losses'', ''arbitration'',
        ''jurisdiction'', ''governing law''])
     [''sole discretion'', ''without notice'', ''at any time'', ''irrevocable'', ''in perpetuity'']"
  by code_simp

lemma red_flags_lower: "list_all (\<lambda>p. py_lower (SP # p) = SP # p) critical_red_flags"
  by code_simp

lemma liability_in_phrase: "py_in ''liability'' (SP # ''unlimited liability'')"
  by code_simp

lemma classify_same:
  assumes "list_all (\<lambda>k. glue_free k b) ([''terminate'', ''termination'', ''non-compete'', ''non compete'',
        ''shall not compete'', ''restriction after termination'', ''confidential'',
        ''non-disclosure'', ''confidential information'', ''salary'', ''compensation'',
        ''fees'', ''payment'', ''remuneration''] @ [''indemnify'', ''liability'', ''damages'', ''losses'', ''arbitration'',
        ''jurisdiction'', ''governing law''])" "py_lower b = b"
  shows "classify_clause (t @ b) = classify_clause t"
  using assms
  by (simp add: classify_clause_def Let_def py_lower_append any_in_def glue_free_append)

lemma classify_liability:
  assumes "list_all (\<lambda>k. glue_free k b) [''terminate'', ''termination'', ''non-compete'', ''non compete'',
        ''shall not compete'', ''restriction after termination'', ''confidential'',
        ''non-disclosure'', ''confidential information'', ''salary'', ''compensation'',
        ''fees'', ''payment'', ''remuneration'']" "py_lower b = b" "py_in ''liability'' b"
  shows "classify_clause (t @ b) =
     (if classify_clause t = ''Indemnity & Liability'' \<or> classify_clause t = ''Dispute Resolution''
         \<or> classify_clause t = ''General''
      then ''Indemnity & Liability'' else classify_clause t)"
  using assms py_in_append_right[of "''liability''" b "py_lower t"]
  by (simp add: classify_clause_def Let_def py_lower_append any_in_def glue_free_append)

lemma score_mono_same_type:
  assumes "classify_clause (t @ b) = classify_clause t"
    "any_in currency_markers (py_lower t @ b) = any_in currency_markers (py_lower t)"
    "py_lower b = b"
  shows "score (assess_risk t) \<le> score (assess_risk (t @ b))"
proof -
  let ?a0 = "\<lparr> acc_score = 0, acc_reasons = [], acc_suggestions = [], acc_tags = [] \<rparr>"
  have 1: "acc_score (type_rules (classify_clause t) (py_lower t) ?a0)
      \<le> acc_score (type_rules (classify_clause t) (py_lower t @ b) ?a0)"
    using assms(2) by (rule type_rules_mono)
  have 2: "(if any_in ambiguity_terms (py_lower t) then 10 else 0)
      \<le> (if any_in ambiguity_terms (py_lower t @ b) then 10 else (0::int))"
    using any_in_append_left[of ambiguity_terms "py_lower t" b] by simp
  have 3: "(if any_in critical_red_flags (py_lower t) then 20 else 0)
      \<le> (if any_in critical_red_flags (py_lower t @ b) then 20 else (0::int))"
    using any_in_append_left[of critical_red_flags "py_lower t" b] by simp
  show ?thesis
    unfolding score_formula assms(1) py_lower_append[OF assms(3)] using 1 2 3 by linarith
qed

lemma score_mono_to_liability:
  assumes "classify_clause t = ''Indemnity & Liability'' \<or> classify_clause t = ''Dispute Resolution''
      \<or> classify_clause t = ''General''"
    "classify_clause (t @ b) = ''Indemnity & Liability''"
    "py_lower b = b"
  shows "score (assess_risk t) \<le> score (assess_risk (t @ b))"
proof -
  let ?a0 = "\<lparr> acc_score = 0, acc_reasons = [], acc_suggestions = [], acc_tags = [] \<rparr>"
  have new: "acc_score (type_rules ''Indemnity & Liability'' (py_lower t @ b) ?a0) = 30"
    by (simp add: type_rules_def bump_score)
  have old: "acc_score (type_rules (classify_clause t) (py_lower t) ?a0) \<le> 30"
    using assms(1) by (auto simp: type_rules_def bump_score Let_def)
  have 2: "(if any_in ambiguity_terms (py_lower t) then 10 else 0)
      \<le> (if any_in ambiguity_terms (py_lower t @ b) then 10 else (0::int))"
    using any_in_append_left[of ambiguity_terms "py_lower t" b] by simp
  have 3: "(if any_in critical_red_flags (py_lower t) then 20 else 0)
      \<le> (if any_in critical_red_flags (py_lower t @ b) then 20 else (0::int))"
    using any_in_append_left[of critical_red_flags "py_lower t" b] by simp
  show ?thesis
    unfolding score_formula assms(2) py_lower_append[OF assms(3)] new using old 2 3 by linarith
qed

text \<open>
  Claim C6, as stated, fails when the phrase is glued to the last word of the clause:
  \<open>liability $ fee\<close> is an indemnity clause with score 30, and with \<open>sole discretion\<close>
  appended it ends in \<open>feesole discretion\<close>, which holds \<open>fees\<close> and \<open>$\<close>: a compensation
  clause with a currency marker, score 5 + 20 = 25.
\<close>

theorem append_red_flag_counterexample:
  "''sole discretion'' \<in> set critical_red_flags
   \<and> score (assess_risk (''liability $ fee'' @ ''sole discretion''))
       < score (assess_risk ''liability $ fee'')"
  by code_simp

text \<open>
  Claim C6, amended. For every clause text and every phrase of the critical-red-flag list,
  appending the phrase as a word of its own, after a space, never decreases the score
  returned by \<open>assess_risk\<close>; the classified type may change (\<open>unlimited liability\<close> turns
  a dispute-resolution or general clause into an indemnity clause).
\<close>

theorem red_flag_word_never_lowers_score:
  assumes "p \<in> set critical_red_flags"
  shows "score (assess_risk t) \<le> score (assess_risk (t @ SP # p))"
proof -
  have low: "py_lower (SP # p) = SP # p"
    using red_flags_lower assms by (simp add: list_all_iff)
  have early: "list_all (\<lambda>k. glue_free k (SP # p)) ([''terminate'', ''termination'', ''non-compete'', ''non compete'',
        ''shall not compete'', ''restriction after termination'', ''confidential'',
        ''non-disclosure'', ''confidential information'', ''salary'', ''compensation'',
        ''fees'', ''payment'', ''remuneration''] @ currency_markers)"
    using glue_early_keywords assms by (simp only: list_all_iff) blast
  then have e14: "list_all (\<lambda>k. glue_free k (SP # p)) [''terminate'', ''termination'', ''non-compete'', ''non compete'',
        ''shall not compete'', ''restriction after termination'', ''confidential'',
        ''non-disclosure'', ''confidential information'', ''salary'', ''compensation'',
        ''fees'', ''payment'', ''remuneration'']"
    and cur: "list_all (\<lambda>k. glue_free k (SP # p)) currency_markers"
    by (simp_all only: list_all_append)
  have c: "any_in currency_markers (py_lower t @ SP # p) = any_in currency_markers (py_lower t)"
    using cur by (rule any_in_glue_free)
  show ?thesis
  proof (cases "p = ''unlimited liability''")
    case True
    have cl: "classify_clause (t @ SP # p) =
     (if classify_clause t = ''Indemnity & Liability'' \<or> classify_clause t = ''Dispute Resolution''
         \<or> classify_clause t = ''General''
      then ''Indemnity & Liability'' else classify_clause t)"
      using e14 low liability_in_phrase unfolding True by (rule classify_liability)
    show ?thesis
    proof (cases "classify_clause t = ''Indemnity & Liability'' \<or> classify_clause t = ''Dispute Resolution''
         \<or> classify_clause t = ''General''")
      case ch: True
      then have "classify_clause (t @ SP # p) = ''Indemnity & Liability''" using cl by simp
      with ch show ?thesis using low by (rule score_mono_to_liability)
    next
      case False
      then have "classify_clause (t @ SP # p) = classify_clause t" using cl by simp
      then show ?thesis using c low by (rule score_mono_same_type)
    qed
  next
    case False
    then have "p \<in> set [''sole discretion'', ''without notice'', ''at any time'', ''irrevocable'',
        ''in perpetuity'']"
      using assms by (simp add: critical_red_flags_def)
    then have "list_all (\<lambda>k. glue_free k (SP # p)) [''indemnify'', ''liability'', ''damages'', ''losses'', ''arbitration'',
        ''jurisdiction'', ''governing law'']"
      using glue_late_keywords by (simp only: list_all_iff) blast
    then have "list_all (\<lambda>k. glue_free k (SP # p)) ([''terminate'', ''termination'', ''non-compete'', ''non compete'',
        ''shall not compete'', ''restriction after termination'', ''confidential'',
        ''non-disclosure'', ''confidential information'', ''salary'', ''compensation'',
        ''fees'', ''payment'', ''remuneration''] @ [''indemnify'', ''liability'', ''damages'', ''losses'', ''arbitration'',
        ''jurisdiction'', ''governing law''])"
      using e14 by (simp only: list_all_append) 
    then have "classify_clause (t @ SP # p) = classify_clause t" using low by (rule classify_same)
    then show ?thesis using c low by (rule score_mono_same_type)
  qed
qed

theorem red_flag_word_never_lowers_score_witness:
  "''sole discretion'' \<in> set critical_red_flags
   \<and> score (assess_risk ''liability $ fee'') = 30
   \<and> score (assess_risk (''liability $ fee'' @ SP # ''sole discretion'')) = 50
   \<and> score (assess_risk ''liability $ fee'')
       \<le> score (assess_risk (''liability $ fee'' @ SP # ''sole discretion''))"
proof -
  have m: "''sole discretion'' \<in> set critical_red_flags" by (simp add: critical_red_flags_def)
  have a: "score (assess_risk ''liability $ fee'') = 30" by code_simp
  have b: "score (assess_risk (''liability $ fee'' @ SP # ''sole discretion'')) = 50" by code_simp
  show ?thesis
    using red_flag_word_never_lowers_score[OF m, of "''liability $ fee''"] m a b by simp
qed

section \<open>The clause extractor\<close>




















text \<open>
  The fallbacks drop short fragments on purpose: here the sentence split discards
  \<open>Hello.\<close>, which is shorter than 40 characters.
\<close>

lemma fallback_drops_short_fragment:
  "map_sum id (map clause_text) (extract_clauses ''Hello. The employee shall submit a weekly report to the manager. The employee shall attend every mandatory meeting on time.'')
     = Inr [''The employee shall submit a weekly report to the manager.'', ''The employee shall attend every mandatory meeting on time.'']"
  by code_simp




text \<open>
  Claim C1. On the empty text \<open>extract_clauses\<close> returns the empty sequence. It is not
  total: on \<open>A. Employee shall do X.\<close> the sentence pattern matches through an alternative
  that leaves the capturing group without a value, \<open>re.split\<close> puts \<open>None\<close> into the list,
  and \<open>s.strip()\<close> raises \<open>AttributeError\<close>.
\<close>

theorem extract_clauses_raises_attribute_error:
  "extract_clauses [] = Inr []
   \<and> extract_clauses ''A. Employee shall do X.'' = Inl AttributeError"
  by code_simp

text \<open>
  Claim C3. The paragraph strategy yields one clause for the text below, and the sentence
  pattern splits it into two fragments of 57 and 54 characters, which both pass the length
  filter; the list returned by \<open>re.split\<close> holds \<open>None\<close> between them, and
  \<open>extract_clauses\<close> raises \<open>AttributeError\<close> where the claim has the two fragments adopted.
\<close>

theorem sentence_split_raises_instead_of_adopting:
  "length (paragraph_clauses (clean_text ''The employee shall submit a weekly report to the manager. Employee shall attend every mandatory meeting on time.'')) = 1
   \<and> re_split_sentences None [] ''The employee shall submit a weekly report to the manager. Employee shall attend every mandatory meeting on time.''
      = [Some ''The employee shall submit a weekly report to the manager.'', None, Some ''Employee shall attend every mandatory meeting on time.'']
   \<and> 40 \<le> length ''The employee shall submit a weekly report to the manager.''
   \<and> 40 \<le> length ''Employee shall attend every mandatory meeting on time.''
   \<and> extract_clauses ''The employee shall submit a weekly report to the manager. Employee shall attend every mandatory meeting on time.'' = Inl AttributeError"
  by code_simp

text \<open>
  Claim C8. On the sentence-split path \<open>clause_id\<close> is the index of \<open>enumerate\<close> over the
  list of \<open>re.split\<close>, which also holds the captured group after each piece: the two
  clauses of the text below get the ids 1 and 3, not 1 and 2.
\<close>

theorem sentence_split_ids_have_gaps:
  "map_sum id (map (\<lambda>c. (clause_id c, source c))) (extract_clauses ''The employee shall submit a weekly report to the manager. The employee shall attend every mandatory meeting on time.'')
   = Inr [(1, ''sentence-split''), (3, ''sentence-split'')]"
  by code_simp

end
